theory Spec2Isabelle
  imports Complex_Main "HOL-Library.Monad_Syntax"
begin

section \<open>Numbers and landmark frames\<close>

text \<open>
  The TypeScript \<^verbatim>\<open>number\<close> coordinates are modelled as real numbers: sums, differences,
  comparisons and divisions by the literals 2, 3 and 4 are exact.  Rounding is not modelled.
  The one division whose denominator is computed from the input (the head tilt) is modelled
  with the IEEE 754 outcome of a division by zero, which in JavaScript is a value and not
  an exception.
\<close>

datatype number = Finite real | PosInfinity | NegInfinity | NaN

text \<open>
  \<^verbatim>\<open>a / b\<close> for finite operands.  A zero denominator in the source arises only as the sum
  of two numbers of opposite sign and equal magnitude, which is the positive zero.
\<close>

definition divide_number :: "real \<Rightarrow> real \<Rightarrow> number" where
  "divide_number a b =
     (if b \<noteq> 0 then Finite (a / b)
      else if 0 < a then PosInfinity
      else if a < 0 then NegInfinity
      else NaN)"

text \<open>\<^verbatim>\<open>Math.abs\<close> on the result of a division.\<close>

fun Math_abs :: "number \<Rightarrow> number" where
  "Math_abs (Finite r) = Finite (abs r)"
| "Math_abs PosInfinity = PosInfinity"
| "Math_abs NegInfinity = PosInfinity"
| "Math_abs NaN = NaN"

text \<open>\<^verbatim>\<open>a > c\<close> for a finite literal \<open>c\<close>: every comparison with NaN is false.\<close>

fun greater_number :: "number \<Rightarrow> real \<Rightarrow> bool" where
  "greater_number (Finite r) c = (c < r)"
| "greater_number PosInfinity c = True"
| "greater_number NegInfinity c = False"
| "greater_number NaN c = False"

datatype HeadDirection = CENTER | LEFT | RIGHT | UP | DOWN

record Landmark =
  x :: real
  y :: real
  z :: real

text \<open>
  The result record of the tracker, declared in \<^verbatim>\<open>FaceTracker.ts\<close> next to \<open>Landmark\<close>.
  The optional fields are options.  The field \<^verbatim>\<open>landmarks\<close> is named \<open>resultLandmarks\<close>,
  since every function below has a parameter \<open>landmarks\<close>.  Three other field names are used
  again by \<open>ExpressionResult\<close>; the later record owns the short names.
\<close>

record FaceTrackingResult =
  detected :: bool
  resultLandmarks :: "Landmark list"
  direction :: HeadDirection
  confidence :: real
  emoji :: "string option"
  expression :: "string option"

text \<open>
  \<^verbatim>\<open>landmarks[i]\<close> followed by a property read.  Past the end of the array the element is
  \<^verbatim>\<open>undefined\<close> and reading \<^verbatim>\<open>.x\<close> or \<^verbatim>\<open>.y\<close> of it throws a TypeError: that is \<open>None\<close>.
  Every element the source reads is dereferenced before the reading function returns, and
  nothing is written in between, so failing at the read is the same outcome.
\<close>

definition landmarkAt :: "Landmark list \<Rightarrow> nat \<Rightarrow> Landmark option" where
  "landmarkAt landmarks i = (if i < length landmarks then Some (landmarks ! i) else None)"

section \<open>EmojiMatcher.ts\<close>

datatype Expression =
  NEUTRAL | HAPPY | VERY_HAPPY | SAD | SURPRISED | ANGRY
  | WINK | KISS | TONGUE_OUT | THINKING | SLEEPY | CONFUSED

text \<open>The string value of each member of the enumeration.\<close>

fun expressionValue :: "Expression \<Rightarrow> string" where
  "expressionValue NEUTRAL = ''neutral''"
| "expressionValue HAPPY = ''happy''"
| "expressionValue VERY_HAPPY = ''very_happy''"
| "expressionValue SAD = ''sad''"
| "expressionValue SURPRISED = ''surprised''"
| "expressionValue ANGRY = ''angry''"
| "expressionValue WINK = ''wink''"
| "expressionValue KISS = ''kiss''"
| "expressionValue TONGUE_OUT = ''tongue_out''"
| "expressionValue THINKING = ''thinking''"
| "expressionValue SLEEPY = ''sleepy''"
| "expressionValue CONFUSED = ''confused''"

record ExpressionResult =
  expression :: Expression
  emoji :: string
  confidence :: real

text \<open>
  The fields of the class.  \<open>emojiMap\<close> is the read-only glyph table (one fixed string per
  expression); its twelve strings are not ASCII and no property below depends on their
  values, so the table is a field of the object as in the source and is never written.
  \<open>expressionStability\<close> starts at 0 and is only incremented or reset to 0.
\<close>

record EmojiMatcher =
  emojiMap :: "Expression \<Rightarrow> string"
  lastExpression :: Expression
  expressionStability :: nat

definition calculateMouthOpenness :: "Landmark list \<Rightarrow> real option" where
  "calculateMouthOpenness landmarks = do {
     upperLip \<leftarrow> landmarkAt landmarks 13;
     lowerLip \<leftarrow> landmarkAt landmarks 14;
     upperInner \<leftarrow> landmarkAt landmarks 12;
     lowerInner \<leftarrow> landmarkAt landmarks 15;
     let outerDistance = abs (y lowerLip - y upperLip);
     let innerDistance = abs (y lowerInner - y upperInner);
     Some ((outerDistance + innerDistance) / 2)
   }"

definition calculateSmileLevel :: "Landmark list \<Rightarrow> real option" where
  "calculateSmileLevel landmarks = do {
     leftCorner \<leftarrow> landmarkAt landmarks 61;
     rightCorner \<leftarrow> landmarkAt landmarks 291;
     upperLipCenter \<leftarrow> landmarkAt landmarks 0;
     lowerLipCenter \<leftarrow> landmarkAt landmarks 17;
     let mouthCenterY = (y upperLipCenter + y lowerLipCenter) / 2;
     let avgCornerY = (y leftCorner + y rightCorner) / 2;
     let mouthWidth = abs (x rightCorner - x leftCorner);
     let verticalSmile = mouthCenterY - avgCornerY;
     let widthFactor = (if mouthWidth > 0.15 then 0.02 else 0);
     Some (verticalSmile + widthFactor)
   }"

definition calculateEyebrowRaise :: "Landmark list \<Rightarrow> real option" where
  "calculateEyebrowRaise landmarks = do {
     leftBrow1 \<leftarrow> landmarkAt landmarks 70;
     leftBrow2 \<leftarrow> landmarkAt landmarks 63;
     leftBrow3 \<leftarrow> landmarkAt landmarks 105;
     rightBrow1 \<leftarrow> landmarkAt landmarks 300;
     rightBrow2 \<leftarrow> landmarkAt landmarks 293;
     rightBrow3 \<leftarrow> landmarkAt landmarks 334;
     leftEyeTop \<leftarrow> landmarkAt landmarks 159;
     rightEyeTop \<leftarrow> landmarkAt landmarks 386;
     let leftBrowAvg = (y leftBrow1 + y leftBrow2 + y leftBrow3) / 3;
     let rightBrowAvg = (y rightBrow1 + y rightBrow2 + y rightBrow3) / 3;
     let leftDistance = y leftEyeTop - leftBrowAvg;
     let rightDistance = y rightEyeTop - rightBrowAvg;
     Some ((leftDistance + rightDistance) / 2)
   }"

text \<open>The \<^verbatim>\<open>eye\<close> parameter, of type \<^verbatim>\<open>'left' | 'right'\<close>.\<close>

datatype Eye = EyeLeft | EyeRight

text \<open>
  The \<^verbatim>\<open>for\<close> loop of \<^verbatim>\<open>calculateEyeOpenness\<close>: \<open>i\<close> runs over the first \<open>numPoints\<close>
  positions of both index arrays, that is over the paired indices, and adds one vertical
  gap to \<open>totalDistance\<close> per round.
\<close>

fun eyeOpennessLoop :: "Landmark list \<Rightarrow> (nat \<times> nat) list \<Rightarrow> real \<Rightarrow> real option" where
  "eyeOpennessLoop landmarks [] totalDistance = Some totalDistance"
| "eyeOpennessLoop landmarks ((topIndex, bottomIndex) # rest) totalDistance = do {
     top \<leftarrow> landmarkAt landmarks topIndex;
     bottom \<leftarrow> landmarkAt landmarks bottomIndex;
     eyeOpennessLoop landmarks rest (totalDistance + abs (y bottom - y top))
   }"

definition calculateEyeOpenness :: "Landmark list \<Rightarrow> Eye \<Rightarrow> real option" where
  "calculateEyeOpenness landmarks eye =
     (let (topIndices, bottomIndices) =
            (if eye = EyeLeft then ([159, 158, 157, 173], [145, 144, 143, 153])
             else ([386, 385, 384, 398], [374, 373, 372, 380]));
          numPoints = min (length topIndices) (length bottomIndices)
      in do {
        totalDistance \<leftarrow> eyeOpennessLoop landmarks (take numPoints (zip topIndices bottomIndices)) 0;
        Some (totalDistance / real numPoints)
      })"

definition calculateMouthWidth :: "Landmark list \<Rightarrow> real option" where
  "calculateMouthWidth landmarks = do {
     leftCorner \<leftarrow> landmarkAt landmarks 61;
     rightCorner \<leftarrow> landmarkAt landmarks 291;
     Some (abs (x rightCorner - x leftCorner))
   }"

definition calculateLipsPucker :: "Landmark list \<Rightarrow> real option" where
  "calculateLipsPucker landmarks = do {
     upperLip \<leftarrow> landmarkAt landmarks 0;
     lowerLip \<leftarrow> landmarkAt landmarks 17;
     leftCorner \<leftarrow> landmarkAt landmarks 61;
     rightCorner \<leftarrow> landmarkAt landmarks 291;
     let lipCenterX = (x upperLip + x lowerLip) / 2;
     let cornerCenterX = (x leftCorner + x rightCorner) / 2;
     Some (abs (lipCenterX - cornerCenterX))
   }"

definition calculateHeadTilt :: "Landmark list \<Rightarrow> number option" where
  "calculateHeadTilt landmarks = do {
     leftEye \<leftarrow> landmarkAt landmarks 33;
     rightEye \<leftarrow> landmarkAt landmarks 263;
     let deltaY = y rightEye - y leftEye;
     let deltaX = x rightEye - x leftEye;
     Some (divide_number deltaY (deltaX + 0.0001))
   }"

text \<open>
  Lines 74 to 132 of \<^verbatim>\<open>analyzeExpression\<close>: the \<^verbatim>\<open>if / else if\<close> ladder that sets
  \<open>detectedExpression\<close> and \<open>confidence\<close> from the eight metrics, in the order of the source.
\<close>

definition detectExpression ::
  "real \<Rightarrow> real \<Rightarrow> real \<Rightarrow> real \<Rightarrow> real \<Rightarrow> real \<Rightarrow> real \<Rightarrow> number \<Rightarrow> Expression \<times> real" where
  "detectExpression mouthOpenness smileLevel eyebrowRaise leftEyeOpenness rightEyeOpenness
       mouthWidth lipsPucker headTilt =
     (let eyeDifference = abs (leftEyeOpenness - rightEyeOpenness) in
      if eyeDifference > 0.012 \<and> (leftEyeOpenness < 0.015 \<or> rightEyeOpenness < 0.015)
        then (WINK, 0.9)
      else if lipsPucker > 0.015 \<and> mouthWidth < 0.12
        then (KISS, 0.85)
      else if mouthOpenness > 0.045 \<and> eyebrowRaise > 0.035
        then (SURPRISED, 0.9)
      else if mouthOpenness > 0.05 \<and> mouthWidth > 0.14 \<and> smileLevel > 0.01
        then (TONGUE_OUT, 0.8)
      else if smileLevel > 0.045 \<and> mouthWidth > 0.15
        then (VERY_HAPPY, 0.9)
      else if smileLevel > 0.025
        then (HAPPY, 0.85)
      else if smileLevel < - 0.015
        then (SAD, 0.8)
      else if greater_number (Math_abs headTilt) 0.03 \<and> eyebrowRaise > 0.025 \<and> eyebrowRaise < 0.04
        then (THINKING, 0.75)
      else if leftEyeOpenness < 0.018 \<and> rightEyeOpenness < 0.018 \<and> abs eyeDifference < 0.005
        then (SLEEPY, 0.8)
      else if eyebrowRaise > 0.02 \<and> eyebrowRaise < 0.035 \<and> abs smileLevel < 0.015
        then (CONFUSED, 0.7)
      else if eyebrowRaise < 0.025 \<and> smileLevel < 0.005 \<and> mouthWidth < 0.13
        then (ANGRY, 0.75)
      else (NEUTRAL, 0.5))"

text \<open>
  \<^verbatim>\<open>analyzeExpression\<close>: the returned pair is the result and the object after the call.
  \<open>newStability\<close> and \<open>newLast\<close> are the two fields after their assignments; \<open>rawConfidence\<close>
  is the local \<^verbatim>\<open>confidence\<close>.
\<close>

definition analyzeExpression ::
  "Landmark list \<Rightarrow> EmojiMatcher \<Rightarrow> (ExpressionResult \<times> EmojiMatcher) option" where
  "analyzeExpression landmarks this =
     (if length landmarks < 468
      then Some (\<lparr>expression = NEUTRAL, emoji = emojiMap this NEUTRAL, confidence = 0\<rparr>, this)
      else do {
        mouthOpenness \<leftarrow> calculateMouthOpenness landmarks;
        smileLevel \<leftarrow> calculateSmileLevel landmarks;
        eyebrowRaise \<leftarrow> calculateEyebrowRaise landmarks;
        leftEyeOpenness \<leftarrow> calculateEyeOpenness landmarks EyeLeft;
        rightEyeOpenness \<leftarrow> calculateEyeOpenness landmarks EyeRight;
        mouthWidth \<leftarrow> calculateMouthWidth landmarks;
        lipsPucker \<leftarrow> calculateLipsPucker landmarks;
        headTilt \<leftarrow> calculateHeadTilt landmarks;
        let (detectedExpression, rawConfidence) =
              detectExpression mouthOpenness smileLevel eyebrowRaise leftEyeOpenness
                rightEyeOpenness mouthWidth lipsPucker headTilt;
        let newStability = (if detectedExpression = lastExpression this
                            then expressionStability this + 1 else 0);
        let newLast = (if newStability \<ge> 2 \<or> detectedExpression \<noteq> lastExpression this
                       then detectedExpression else lastExpression this);
        Some (\<lparr>expression = newLast, emoji = emojiMap this newLast, confidence = rawConfidence\<rparr>,
              this\<lparr>lastExpression := newLast, expressionStability := newStability\<rparr>)
      })"

section \<open>FaceTracker.ts\<close>

text \<open>
  The fields of the tracker.  The handle to the external face-mesh model is left out: the
  code below never reads it.
\<close>

record FaceTracker =
  ready :: bool
  lastResult :: "FaceTrackingResult option"
  directionThreshold :: real
  emojiMatcher :: EmojiMatcher

definition calculateDirection :: "FaceTracker \<Rightarrow> Landmark list \<Rightarrow> HeadDirection option" where
  "calculateDirection this landmarks =
     (if length landmarks < 468 then Some CENTER
      else do {
        noseTip \<leftarrow> landmarkAt landmarks 1;
        leftEye \<leftarrow> landmarkAt landmarks 33;
        rightEye \<leftarrow> landmarkAt landmarks 263;
        chin \<leftarrow> landmarkAt landmarks 152;
        let faceCenterX = (x leftEye + x rightEye) / 2;
        let faceCenterY = (y leftEye + y rightEye + y chin) / 3;
        let horizontalOffset = x noseTip - faceCenterX;
        let verticalOffset = y noseTip - faceCenterY;
        let threshold = directionThreshold this;
        Some (if abs horizontalOffset > abs verticalOffset
              then (if horizontalOffset > threshold then LEFT
                    else if horizontalOffset < - threshold then RIGHT
                    else CENTER)
              else (if verticalOffset > threshold then DOWN
                    else if verticalOffset < - threshold then UP
                    else CENTER))
      })"

text \<open>
  \<^verbatim>\<open>handleResults\<close>, the only caller of both classifiers.  Its argument is
  \<^verbatim>\<open>results.multiFaceLandmarks\<close>: absent, or the list of detected faces.  The result is the
  tracker after the call, \<open>None\<close> when a classifier throws.
\<close>

definition handleResults :: "Landmark list list option \<Rightarrow> FaceTracker \<Rightarrow> FaceTracker option" where
  "handleResults multiFaceLandmarks this =
     (if multiFaceLandmarks = None \<or> length (the multiFaceLandmarks) = 0
      then Some (this\<lparr>lastResult := Some
             \<lparr>detected = False, resultLandmarks = [], direction = CENTER, confidence = 0,
              emoji = None, expression = None\<rparr>\<rparr>)
      else do {
        let faceLandmarks = the multiFaceLandmarks ! 0;
        let landmarks = map (\<lambda>lm. \<lparr>x = x lm, y = y lm, z = (if z lm \<noteq> 0 then z lm else 0)\<rparr>)
                          faceLandmarks;
        direction \<leftarrow> calculateDirection this landmarks;
        (expressionResult, matcher) \<leftarrow> analyzeExpression landmarks (emojiMatcher this);
        Some (this\<lparr>emojiMatcher := matcher,
                   lastResult := Some
                     \<lparr>detected = True, resultLandmarks = landmarks, direction = direction,
                      confidence = 1.0,
                      emoji = Some (ExpressionResult.emoji expressionResult),
                      expression = Some (expressionValue (ExpressionResult.expression expressionResult))\<rparr>\<rparr>)
      })"

section \<open>tests/FaceTracker.test.ts\<close>

text \<open>
  The frame builder of the unit tests: 468 points at \<open>(0.5, 0.5)\<close>, with the nose tip at the
  given position and the eyes and the chin placed so that the face centre is \<open>(0.5, 0.5)\<close>.
\<close>

definition createMockLandmarks :: "real \<Rightarrow> real \<Rightarrow> Landmark list" where
  "createMockLandmarks noseTipX noseTipY =
     (replicate 468 \<lparr>x = 0.5, y = 0.5, z = 0\<rparr>)
       [1 := \<lparr>x = noseTipX, y = noseTipY, z = 0\<rparr>,
        33 := \<lparr>x = 0.4, y = 0.4, z = 0\<rparr>,
        263 := \<lparr>x = 0.6, y = 0.4, z = 0\<rparr>,
        152 := \<lparr>x = 0.5, y = 0.7, z = 0\<rparr>]"

section \<open>Vocabulary of the properties\<close>

text \<open>
  The two offsets that \<^verbatim>\<open>calculateDirection\<close> computes, as functions of a frame that has the
  four reference points.
\<close>

definition horizontalOffset :: "Landmark list \<Rightarrow> real" where
  "horizontalOffset landmarks =
     x (landmarks ! 1) - (x (landmarks ! 33) + x (landmarks ! 263)) / 2"

definition verticalOffset :: "Landmark list \<Rightarrow> real" where
  "verticalOffset landmarks =
     y (landmarks ! 1) - (y (landmarks ! 33) + y (landmarks ! 263) + y (landmarks ! 152)) / 3"

text \<open>
  The eight metrics of one frame, computed by the functions of the source in the order in
  which \<^verbatim>\<open>analyzeExpression\<close> calls them.
\<close>

record Metrics =
  mouthOpenness :: real
  smileLevel :: real
  eyebrowRaise :: real
  leftEyeOpenness :: real
  rightEyeOpenness :: real
  mouthWidth :: real
  lipsPucker :: real
  headTilt :: number

definition metricsOf :: "Landmark list \<Rightarrow> Metrics option" where
  "metricsOf landmarks = do {
     mo \<leftarrow> calculateMouthOpenness landmarks;
     sl \<leftarrow> calculateSmileLevel landmarks;
     er \<leftarrow> calculateEyebrowRaise landmarks;
     le \<leftarrow> calculateEyeOpenness landmarks EyeLeft;
     re \<leftarrow> calculateEyeOpenness landmarks EyeRight;
     mw \<leftarrow> calculateMouthWidth landmarks;
     lp \<leftarrow> calculateLipsPucker landmarks;
     ht \<leftarrow> calculateHeadTilt landmarks;
     Some \<lparr>mouthOpenness = mo, smileLevel = sl, eyebrowRaise = er, leftEyeOpenness = le,
           rightEyeOpenness = re, mouthWidth = mw, lipsPucker = lp, headTilt = ht\<rparr>
   }"

text \<open>The ladder of the source applied to the metrics of a frame: the raw classification.\<close>

definition rawClassification :: "Metrics \<Rightarrow> Expression \<times> real" where
  "rawClassification m =
     detectExpression (mouthOpenness m) (smileLevel m) (eyebrowRaise m) (leftEyeOpenness m)
       (rightEyeOpenness m) (mouthWidth m) (lipsPucker m) (headTilt m)"

text \<open>
  The rule chain as the specification words it: eleven rules in priority order, each a
  test on the metrics and a label; the first rule whose test holds gives the label.  The
  specification names no number for "symmetric" eyes and for a "near-flat" smile; these two
  bounds (0.005 and 0.015) are the ones of the source.
\<close>

definition ruleChain :: "((Metrics \<Rightarrow> bool) \<times> Expression) list" where
  "ruleChain =
     [(\<lambda>m. abs (leftEyeOpenness m - rightEyeOpenness m) > 0.012
            \<and> (leftEyeOpenness m < 0.015 \<or> rightEyeOpenness m < 0.015), WINK),
      (\<lambda>m. lipsPucker m > 0.015 \<and> mouthWidth m < 0.12, KISS),
      (\<lambda>m. mouthOpenness m > 0.045 \<and> eyebrowRaise m > 0.035, SURPRISED),
      (\<lambda>m. mouthOpenness m > 0.05 \<and> mouthWidth m > 0.14 \<and> smileLevel m > 0.01, TONGUE_OUT),
      (\<lambda>m. smileLevel m > 0.045 \<and> mouthWidth m > 0.15, VERY_HAPPY),
      (\<lambda>m. smileLevel m > 0.025, HAPPY),
      (\<lambda>m. smileLevel m < - 0.015, SAD),
      (\<lambda>m. greater_number (Math_abs (headTilt m)) 0.03
            \<and> 0.025 < eyebrowRaise m \<and> eyebrowRaise m < 0.04, THINKING),
      (\<lambda>m. leftEyeOpenness m < 0.018 \<and> rightEyeOpenness m < 0.018
            \<and> abs (leftEyeOpenness m - rightEyeOpenness m) < 0.005, SLEEPY),
      (\<lambda>m. 0.02 < eyebrowRaise m \<and> eyebrowRaise m < 0.035 \<and> abs (smileLevel m) < 0.015, CONFUSED),
      (\<lambda>m. eyebrowRaise m < 0.025 \<and> smileLevel m < 0.005 \<and> mouthWidth m < 0.13, ANGRY)]"

fun firstMatch :: "(('a \<Rightarrow> bool) \<times> 'b) list \<Rightarrow> 'b \<Rightarrow> 'a \<Rightarrow> 'b" where
  "firstMatch [] fallback m = fallback"
| "firstMatch ((test, label) # rules) fallback m =
     (if test m then label else firstMatch rules fallback m)"

text \<open>Concrete objects for the examples: a matcher with an ASCII glyph table, and a tracker.\<close>

definition sampleMatcher :: "Expression \<Rightarrow> nat \<Rightarrow> EmojiMatcher" where
  "sampleMatcher label counter =
     \<lparr>emojiMap = (\<lambda>e. CHR '':'' # expressionValue e @ '':''),
      lastExpression = label, expressionStability = counter\<rparr>"

definition sampleTracker :: "real \<Rightarrow> FaceTracker" where
  "sampleTracker threshold =
     \<lparr>ready = True, lastResult = None, directionThreshold = threshold,
      emojiMatcher = sampleMatcher NEUTRAL 0\<rparr>"

text \<open>
  A frame of 468 points with all \<open>x\<close> in \<open>[0, 1]\<close> whose left eye (index 33) lies 0.0001 to
  the right of its right eye (index 263).
\<close>

definition zeroDenominatorFrame :: "Landmark list" where
  "zeroDenominatorFrame =
     (replicate 468 \<lparr>x = 0.5, y = 0.5, z = 0\<rparr>)
       [33 := \<lparr>x = 0.0001, y = 0.4, z = 0\<rparr>,
        263 := \<lparr>x = 0, y = 0.5, z = 0\<rparr>]"

section \<open>Basic facts\<close>

text \<open>
  Past the length guard every read of the source is in bounds: all indices are at most 398.
\<close>

lemma landmarkAt_in: "398 < length ls \<Longrightarrow> i \<le> 398 \<Longrightarrow> landmarkAt ls i = Some (ls ! i)"
  by (simp add: landmarkAt_def)

lemma calculateMouthOpenness_Some:
  "398 < length ls \<Longrightarrow> calculateMouthOpenness ls \<noteq> None"
  by (simp add: calculateMouthOpenness_def landmarkAt_in Let_def)

lemma calculateSmileLevel_Some:
  "398 < length ls \<Longrightarrow> calculateSmileLevel ls \<noteq> None"
  by (simp add: calculateSmileLevel_def landmarkAt_in Let_def)

lemma calculateEyebrowRaise_Some:
  "398 < length ls \<Longrightarrow> calculateEyebrowRaise ls \<noteq> None"
  by (simp add: calculateEyebrowRaise_def landmarkAt_in Let_def)

lemma calculateEyeOpenness_Some:
  "398 < length ls \<Longrightarrow> calculateEyeOpenness ls eye \<noteq> None"
  by (cases eye) (simp_all add: calculateEyeOpenness_def landmarkAt_in Let_def)

lemma calculateMouthWidth_Some:
  "398 < length ls \<Longrightarrow> calculateMouthWidth ls \<noteq> None"
  by (simp add: calculateMouthWidth_def landmarkAt_in Let_def)

lemma calculateLipsPucker_Some:
  "398 < length ls \<Longrightarrow> calculateLipsPucker ls \<noteq> None"
  by (simp add: calculateLipsPucker_def landmarkAt_in Let_def)

lemma calculateHeadTilt_Some:
  "398 < length ls \<Longrightarrow> calculateHeadTilt ls \<noteq> None"
  by (simp add: calculateHeadTilt_def landmarkAt_in Let_def)

lemma metricsOf_Some:
  assumes "398 < length ls"
  shows "\<exists>m. metricsOf ls = Some m"
proof -
  obtain a where a: "calculateMouthOpenness ls = Some a"
    using calculateMouthOpenness_Some [OF assms] by auto
  obtain b where b: "calculateSmileLevel ls = Some b"
    using calculateSmileLevel_Some [OF assms] by auto
  obtain c where c: "calculateEyebrowRaise ls = Some c"
    using calculateEyebrowRaise_Some [OF assms] by auto
  obtain d where d: "calculateEyeOpenness ls EyeLeft = Some d"
    using calculateEyeOpenness_Some [OF assms] by auto
  obtain e where e: "calculateEyeOpenness ls EyeRight = Some e"
    using calculateEyeOpenness_Some [OF assms] by auto
  obtain f where f: "calculateMouthWidth ls = Some f"
    using calculateMouthWidth_Some [OF assms] by auto
  obtain g where g: "calculateLipsPucker ls = Some g"
    using calculateLipsPucker_Some [OF assms] by auto
  obtain h where h: "calculateHeadTilt ls = Some h"
    using calculateHeadTilt_Some [OF assms] by auto
  show ?thesis by (simp add: metricsOf_def a b c d e f g h)
qed

lemma metricsOf_parts:
  assumes "metricsOf ls = Some m"
  shows "calculateMouthOpenness ls = Some (mouthOpenness m)"
    and "calculateSmileLevel ls = Some (smileLevel m)"
    and "calculateEyebrowRaise ls = Some (eyebrowRaise m)"
    and "calculateEyeOpenness ls EyeLeft = Some (leftEyeOpenness m)"
    and "calculateEyeOpenness ls EyeRight = Some (rightEyeOpenness m)"
    and "calculateMouthWidth ls = Some (mouthWidth m)"
    and "calculateLipsPucker ls = Some (lipsPucker m)"
    and "calculateHeadTilt ls = Some (headTilt m)"
  using assms by (auto simp: metricsOf_def bind_eq_Some_conv)

lemma analyzeExpression_unfold:
  assumes "468 \<le> length ls" and "metricsOf ls = Some m"
  shows "analyzeExpression ls this =
     (let (detectedExpression, rawConfidence) = rawClassification m;
          newStability = (if detectedExpression = lastExpression this
                          then expressionStability this + 1 else 0);
          newLast = (if newStability \<ge> 2 \<or> detectedExpression \<noteq> lastExpression this
                     then detectedExpression else lastExpression this)
      in Some (\<lparr>expression = newLast, emoji = emojiMap this newLast, confidence = rawConfidence\<rparr>,
               this\<lparr>lastExpression := newLast, expressionStability := newStability\<rparr>))"
  using assms(1) metricsOf_parts [OF assms(2)]
  by (simp add: analyzeExpression_def rawClassification_def)

lemma rawClassification_firstMatch:
  "fst (rawClassification m) = firstMatch ruleChain NEUTRAL m"
  by (simp add: rawClassification_def detectExpression_def ruleChain_def Let_def)

text \<open>The first 399 points of a frame carry every landmark the metric functions read.\<close>

lemma landmarkAt_prefix:
  "398 < length ls \<Longrightarrow> i \<le> 398 \<Longrightarrow> landmarkAt (take 399 ls) i = Some (ls ! i)"
  by (simp add: landmarkAt_def)

lemma metricsOf_prefix:
  assumes "398 < length ls"
  shows "metricsOf (take 399 ls) = metricsOf ls"
proof -
  have "calculateMouthOpenness (take 399 ls) = calculateMouthOpenness ls"
    using assms by (simp add: calculateMouthOpenness_def landmarkAt_in landmarkAt_prefix)
  moreover have "calculateSmileLevel (take 399 ls) = calculateSmileLevel ls"
    using assms by (simp add: calculateSmileLevel_def landmarkAt_in landmarkAt_prefix)
  moreover have "calculateEyebrowRaise (take 399 ls) = calculateEyebrowRaise ls"
    using assms by (simp add: calculateEyebrowRaise_def landmarkAt_in landmarkAt_prefix)
  moreover have "calculateEyeOpenness (take 399 ls) eye = calculateEyeOpenness ls eye" for eye
    using assms
    by (cases eye) (simp_all add: calculateEyeOpenness_def landmarkAt_in landmarkAt_prefix)
  moreover have "calculateMouthWidth (take 399 ls) = calculateMouthWidth ls"
    using assms by (simp add: calculateMouthWidth_def landmarkAt_in landmarkAt_prefix)
  moreover have "calculateLipsPucker (take 399 ls) = calculateLipsPucker ls"
    using assms by (simp add: calculateLipsPucker_def landmarkAt_in landmarkAt_prefix)
  moreover have "calculateHeadTilt (take 399 ls) = calculateHeadTilt ls"
    using assms by (simp add: calculateHeadTilt_def landmarkAt_in landmarkAt_prefix)
  ultimately show ?thesis by (simp add: metricsOf_def)
qed

lemma calculateDirection_unfold:
  assumes "468 \<le> length ls"
  shows "calculateDirection this ls =
     Some (if abs (horizontalOffset ls) > abs (verticalOffset ls)
           then (if horizontalOffset ls > directionThreshold this then LEFT
                 else if horizontalOffset ls < - directionThreshold this then RIGHT
                 else CENTER)
           else (if verticalOffset ls > directionThreshold this then DOWN
                 else if verticalOffset ls < - directionThreshold this then UP
                 else CENTER))"
  using assms
  by (simp add: calculateDirection_def landmarkAt_in horizontalOffset_def verticalOffset_def Let_def)

lemma prefix_nth:
  assumes "take n ls' = take n ls" and "i < n"
  shows "ls' ! i = ls ! i"
  using assms by (metis nth_take)

lemma offsets_prefix:
  assumes "take 399 ls' = take 399 ls"
  shows "horizontalOffset ls' = horizontalOffset ls" and "verticalOffset ls' = verticalOffset ls"
  using prefix_nth [OF assms, of 1] prefix_nth [OF assms, of 33]
    prefix_nth [OF assms, of 263] prefix_nth [OF assms, of 152]
  by (simp_all add: horizontalOffset_def verticalOffset_def)

lemma handleResults_threshold:
  assumes "handleResults faces a = Some a'"
  shows "directionThreshold a' = directionThreshold a"
  using assms
  by (auto simp: handleResults_def Let_def bind_eq_Some_conv split: if_splits)

text \<open>The frames of the unit tests: their length, offsets and metrics.\<close>

lemma length_createMockLandmarks: "length (createMockLandmarks a b) = 468"
  by (simp add: createMockLandmarks_def)

lemma createMockLandmarks_offsets:
  "horizontalOffset (createMockLandmarks a b) = a - 0.5"
  "verticalOffset (createMockLandmarks a b) = b - 0.5"
  by (simp_all add: createMockLandmarks_def horizontalOffset_def verticalOffset_def)

lemma metricsOf_createMockLandmarks:
  "metricsOf (createMockLandmarks a b) =
     Some \<lparr>mouthOpenness = 0, smileLevel = 0, eyebrowRaise = 0, leftEyeOpenness = 0,
           rightEyeOpenness = 0, mouthWidth = 0, lipsPucker = 0, headTilt = Finite 0\<rparr>"
  by (simp add: metricsOf_def createMockLandmarks_def calculateMouthOpenness_def
      calculateSmileLevel_def calculateEyebrowRaise_def calculateEyeOpenness_def
      calculateMouthWidth_def calculateLipsPucker_def calculateHeadTilt_def
      landmarkAt_def divide_number_def Let_def)

lemma rawClassification_still:
  "rawClassification \<lparr>mouthOpenness = 0, smileLevel = 0, eyebrowRaise = 0, leftEyeOpenness = 0,
           rightEyeOpenness = 0, mouthWidth = 0, lipsPucker = 0, headTilt = Finite 0\<rparr> = (SLEEPY, 0.8)"
  by (simp add: rawClassification_def detectExpression_def Let_def)

lemma list_all_update:
  "list_all P xs \<Longrightarrow> P v \<Longrightarrow> list_all P (xs[i := v])"
  by (auto simp: list_all_iff dest: subsetD [OF set_update_subset_insert])

section \<open>The stability filter\<close>

text \<open>
  Claim C1.  On a frame of at least 468 points and from any rolling state, let the fresh
  label be the raw classification of the frame's metrics.  The counter after the call is
  the old counter plus one when the fresh label equals the old \<open>lastExpression\<close>, and 0
  otherwise.  \<open>lastExpression\<close> after the call is the fresh label when the new counter is at
  least 2 or the fresh label differs from the old \<open>lastExpression\<close>, and is unchanged
  otherwise.  The result reports \<open>lastExpression\<close> as it stands after the call, the glyph
  of that label in the (unchanged) glyph table, and the raw confidence of this call.
\<close>

theorem analyzeExpression_stability_filter:
  assumes "468 \<le> length landmarks"
  shows "\<exists>m result this'.
     metricsOf landmarks = Some m \<and>
     analyzeExpression landmarks this = Some (result, this') \<and>
     expressionStability this' =
       (if fst (rawClassification m) = lastExpression this
        then expressionStability this + 1 else 0) \<and>
     lastExpression this' =
       (if expressionStability this' \<ge> 2 \<or> fst (rawClassification m) \<noteq> lastExpression this
        then fst (rawClassification m) else lastExpression this) \<and>
     emojiMap this' = emojiMap this \<and>
     expression result = lastExpression this' \<and>
     emoji result = emojiMap this (lastExpression this') \<and>
     confidence result = snd (rawClassification m)"
proof -
  from assms have "398 < length landmarks" by simp
  then obtain m where m: "metricsOf landmarks = Some m"
    using metricsOf_Some by blast
  show ?thesis
    unfolding analyzeExpression_unfold [OF assms m]
    by (cases "rawClassification m") (simp add: m Let_def)
qed

text \<open>
  The unit-test frame with the nose at the centre classifies as SLEEPY (all eye gaps are
  0); from the state (SLEEPY, 1) the counter becomes 2 and SLEEPY is reported.
\<close>

theorem analyzeExpression_stability_filter_witness:
  "468 \<le> length (createMockLandmarks 0.5 0.5) \<and>
   (\<exists>result this'.
      analyzeExpression (createMockLandmarks 0.5 0.5) (sampleMatcher SLEEPY 1) = Some (result, this') \<and>
      expressionStability this' = 2 \<and> lastExpression this' = SLEEPY \<and>
      expression result = SLEEPY \<and> emoji result = '':sleepy:'' \<and> confidence result = 0.8)"
proof -
  have len: "468 \<le> length (createMockLandmarks 0.5 0.5)"
    by (simp add: length_createMockLandmarks)
  from analyzeExpression_stability_filter [OF len, of "sampleMatcher SLEEPY 1"]
  show ?thesis
    by (auto simp: length_createMockLandmarks metricsOf_createMockLandmarks rawClassification_still sampleMatcher_def)
qed

section \<open>The rule chain\<close>

text \<open>
  Claim C2.  On a frame of at least 468 points the raw classification, that is the label
  the ladder of the source computes from the frame's eight metrics before the stability
  filter, is the label of the first rule of the chain WINK, KISS, SURPRISED, TONGUE_OUT,
  VERY_HAPPY, HAPPY, SAD, THINKING, SLEEPY, CONFUSED, ANGRY whose test holds, and NEUTRAL
  when none holds.  It is also the label that \<^verbatim>\<open>analyzeExpression\<close> commits on that call.
\<close>

theorem rawClassification_is_first_match:
  assumes "468 \<le> length landmarks"
  shows "\<exists>m result this'.
     metricsOf landmarks = Some m \<and>
     fst (rawClassification m) = firstMatch ruleChain NEUTRAL m \<and>
     analyzeExpression landmarks this = Some (result, this') \<and>
     lastExpression this' = firstMatch ruleChain NEUTRAL m"
proof -
  from assms have "398 < length landmarks" by simp
  then obtain m where m: "metricsOf landmarks = Some m"
    using metricsOf_Some by blast
  have "\<exists>result this'. analyzeExpression landmarks this = Some (result, this') \<and>
          lastExpression this' = fst (rawClassification m)"
    unfolding analyzeExpression_unfold [OF assms m]
    by (cases "rawClassification m") (simp add: Let_def)
  then show ?thesis
    using m rawClassification_firstMatch [of m] by auto
qed

theorem rawClassification_is_first_match_witness:
  "468 \<le> length (createMockLandmarks 0.5 0.5) \<and>
   (\<exists>m. metricsOf (createMockLandmarks 0.5 0.5) = Some m \<and>
        firstMatch ruleChain NEUTRAL m = SLEEPY)"
proof -
  have len: "468 \<le> length (createMockLandmarks 0.5 0.5)"
    by (simp add: length_createMockLandmarks)
  from rawClassification_is_first_match [OF len, of "sampleMatcher NEUTRAL 0"]
  show ?thesis
    by (auto simp: length_createMockLandmarks metricsOf_createMockLandmarks rawClassification_still)
qed

section \<open>The direction mapping\<close>




section \<open>The worked example\<close>

text \<open>
  Claim C4, as amended.  On every 468-point frame with the left eye at \<open>(0.4, 0.4)\<close>,
  the right eye at \<open>(0.6, 0.4)\<close>, the chin at \<open>(0.5, 0.7)\<close> and the nose tip at
  \<open>(0.7, 0.5)\<close>, and with threshold 0.15, the result is LEFT: the horizontal offset is 0.2,
  above the threshold, and the mirrored mapping sends a positive offset to LEFT.
\<close>

theorem worked_example_is_LEFT:
  assumes "length landmarks = 468"
    and "x (landmarks ! 33) = 0.4" and "y (landmarks ! 33) = 0.4"
    and "x (landmarks ! 263) = 0.6" and "y (landmarks ! 263) = 0.4"
    and "x (landmarks ! 152) = 0.5" and "y (landmarks ! 152) = 0.7"
    and "x (landmarks ! 1) = 0.7" and "y (landmarks ! 1) = 0.5"
    and "directionThreshold this = 0.15"
  shows "calculateDirection this landmarks = Some LEFT"
proof -
  have len: "468 \<le> length landmarks" using assms(1) by simp
  have "horizontalOffset landmarks = 0.2" and "verticalOffset landmarks = 0"
    using assms by (simp_all add: horizontalOffset_def verticalOffset_def)
  then show ?thesis
    unfolding calculateDirection_unfold [OF len] using assms(10) by simp
qed

theorem worked_example_is_LEFT_witness:
  "length (createMockLandmarks 0.7 0.5) = 468 \<and>
   directionThreshold (sampleTracker 0.15) = 0.15 \<and>
   calculateDirection (sampleTracker 0.15) (createMockLandmarks 0.7 0.5) = Some LEFT"
proof -
  have "calculateDirection (sampleTracker 0.15) (createMockLandmarks 0.7 0.5) = Some LEFT"
    by (rule worked_example_is_LEFT)
       (simp_all add: createMockLandmarks_def sampleTracker_def)
  then show ?thesis
    by (simp add: length_createMockLandmarks sampleTracker_def)
qed

text \<open>
  Claim C4 as stated names RIGHT for this frame; the source does not return RIGHT.
\<close>

theorem worked_example_counterexample:
  "calculateDirection (sampleTracker 0.15) (createMockLandmarks 0.7 0.5) \<noteq> Some RIGHT"
  by (simp add: calculateDirection_unfold length_createMockLandmarks createMockLandmarks_offsets
      sampleTracker_def)

section \<open>Equal magnitudes\<close>

text \<open>
  Claim C5 says that the horizontal axis is tested when both offsets have the same
  magnitude.  The source compares with a strict \<^verbatim>\<open>>\<close>, so on a tie it tests the vertical
  axis: for the unit-test frame with the nose at \<open>(0.7, 0.7)\<close> both offsets are 0.2, both
  exceed the threshold 0.15, and the result is DOWN, the vertical label.
\<close>

theorem tie_tests_vertical_axis:
  "468 \<le> length (createMockLandmarks 0.7 0.7) \<and>
   abs (horizontalOffset (createMockLandmarks 0.7 0.7)) = abs (verticalOffset (createMockLandmarks 0.7 0.7)) \<and>
   horizontalOffset (createMockLandmarks 0.7 0.7) > directionThreshold (sampleTracker 0.15) \<and>
   verticalOffset (createMockLandmarks 0.7 0.7) > directionThreshold (sampleTracker 0.15) \<and>
   calculateDirection (sampleTracker 0.15) (createMockLandmarks 0.7 0.7) = Some DOWN"
  by (simp add: calculateDirection_unfold length_createMockLandmarks createMockLandmarks_offsets
      sampleTracker_def)

section \<open>Frames with fewer than 468 points\<close>

text \<open>
  Claim C6.  On a frame with fewer than 468 points, for every tracker (so for every
  threshold) and every rolling state, \<^verbatim>\<open>calculateDirection\<close> returns CENTER and
  \<^verbatim>\<open>analyzeExpression\<close> returns NEUTRAL with confidence 0; both return normally, neither
  throws.
\<close>

theorem short_frame_degrades:
  assumes "length landmarks < 468"
  shows "calculateDirection tracker landmarks = Some CENTER \<and>
         (\<exists>result this'. analyzeExpression landmarks this = Some (result, this') \<and>
            expression result = NEUTRAL \<and> confidence result = 0)"
  using assms by (simp add: calculateDirection_def analyzeExpression_def)

text \<open>
  The 100-point frame of the unit tests.
\<close>

theorem short_frame_degrades_witness:
  "length (replicate 100 \<lparr>x = 0.5, y = 0.5, z = 0\<rparr>) < 468 \<and>
   calculateDirection (sampleTracker 0.15) (replicate 100 \<lparr>x = 0.5, y = 0.5, z = 0\<rparr>) = Some CENTER \<and>
   (\<exists>result this'.
      analyzeExpression (replicate 100 \<lparr>x = 0.5, y = 0.5, z = 0\<rparr>) (sampleMatcher HAPPY 3) = Some (result, this') \<and>
      expression result = NEUTRAL \<and> confidence result = 0)"
proof -
  have short: "length (replicate 100 \<lparr>x = 0.5, y = 0.5, z = 0\<rparr>) < 468" by simp
  from short_frame_degrades [OF short, of "sampleTracker 0.15" "sampleMatcher HAPPY 3"]
  show ?thesis by simp
qed

text \<open>
  Claim C9.  On a frame with fewer than 468 points the object after the call to
  \<^verbatim>\<open>analyzeExpression\<close> is the object before the call, for every rolling state.
\<close>

theorem short_frame_keeps_state:
  assumes "length landmarks < 468"
  shows "\<exists>result. analyzeExpression landmarks this = Some (result, this)"
  using assms by (simp add: analyzeExpression_def)

theorem short_frame_keeps_state_witness:
  "length ([] :: Landmark list) < 468 \<and>
   (\<exists>result. analyzeExpression [] (sampleMatcher SAD 5) = Some (result, sampleMatcher SAD 5))"
proof -
  have short: "length ([] :: Landmark list) < 468" by simp
  from short_frame_keeps_state [OF short, of "sampleMatcher SAD 5"]
  show ?thesis by simp
qed

section \<open>The head tilt denominator\<close>

text \<open>
  Claim C7 says that the denominator \<open>rightEye.x - leftEye.x + 0.0001\<close> is never zero
  when all \<open>x\<close> lie in \<open>[0, 1]\<close>.  The added constant only moves the zero: with the left
  eye at \<open>x = 0.0001\<close> and the right eye at \<open>x = 0\<close> the denominator is 0 and the quotient
  is a division by zero (here positive infinity, as the right eye is lower than the left).
\<close>

theorem headTilt_zero_denominator:
  "length zeroDenominatorFrame = 468 \<and>
   list_all (\<lambda>p. 0 \<le> x p \<and> x p \<le> 1) zeroDenominatorFrame \<and>
   x (zeroDenominatorFrame ! 263) - x (zeroDenominatorFrame ! 33) + 0.0001 = 0 \<and>
   calculateHeadTilt zeroDenominatorFrame = Some PosInfinity"
proof -
  have "list_all (\<lambda>p. 0 \<le> x p \<and> x p \<le> 1) zeroDenominatorFrame"
    unfolding zeroDenominatorFrame_def
    by (intro list_all_update) (simp_all add: list_all_iff)
  then show ?thesis
    by (simp add: zeroDenominatorFrame_def calculateHeadTilt_def landmarkAt_def
        divide_number_def Let_def)
qed

section \<open>Determinism of the direction\<close>

text \<open>
  Claim C8.  On a 468-point frame the direction is a function of the frame and of the
  threshold alone: two trackers with the same threshold, whatever their other fields,
  return the same label, and so does the tracker after \<^verbatim>\<open>handleResults\<close> has processed
  any further frame, which changes the rolling state and the last result but not the
  threshold.
\<close>

theorem calculateDirection_deterministic:
  assumes "length landmarks = 468" and "directionThreshold a = directionThreshold b"
  shows "(\<exists>d. calculateDirection a landmarks = Some d \<and> calculateDirection b landmarks = Some d) \<and>
         (\<forall>faces a'. handleResults faces a = Some a' \<longrightarrow>
            calculateDirection a' landmarks = calculateDirection a landmarks)"
proof -
  have len: "468 \<le> length landmarks" using assms(1) by simp
  have "calculateDirection a' landmarks = calculateDirection a landmarks"
    if "handleResults faces a = Some a'" for faces a'
    using handleResults_threshold [OF that] by (simp add: calculateDirection_unfold [OF len])
  then show ?thesis
    using assms(2) by (simp add: calculateDirection_unfold [OF len])
qed

text \<open>
  Two trackers that differ in \<open>ready\<close> and in the state of the matcher both answer UP on
  the unit-test frame with the nose at \<open>(0.5, 0.3)\<close>.
\<close>

theorem calculateDirection_deterministic_witness:
  "length (createMockLandmarks 0.5 0.3) = 468 \<and>
   directionThreshold (sampleTracker 0.15) = directionThreshold ((sampleTracker 0.15)\<lparr>ready := False, emojiMatcher := sampleMatcher WINK 7\<rparr>) \<and>
   calculateDirection (sampleTracker 0.15) (createMockLandmarks 0.5 0.3) = Some UP \<and>
   calculateDirection ((sampleTracker 0.15)\<lparr>ready := False, emojiMatcher := sampleMatcher WINK 7\<rparr>) (createMockLandmarks 0.5 0.3) = Some UP"
proof -
  have thr: "directionThreshold (sampleTracker 0.15) = directionThreshold ((sampleTracker 0.15)\<lparr>ready := False, emojiMatcher := sampleMatcher WINK 7\<rparr>)"
    by simp
  have up: "calculateDirection (sampleTracker 0.15) (createMockLandmarks 0.5 0.3) = Some UP"
    by (simp add: calculateDirection_unfold length_createMockLandmarks createMockLandmarks_offsets
      sampleTracker_def)
  from calculateDirection_deterministic [OF length_createMockLandmarks [of "0.5" "0.3"] thr] up
  show ?thesis
    by (auto simp: length_createMockLandmarks)
qed

section \<open>Landmark reads are in bounds\<close>

text \<open>
  Claim C10.  Every index read is at most 398: the eight metric functions, which have no
  length guard of their own, compute on the first 399 points of a frame what they compute
  on the whole frame, and they return normally; both classifiers return normally on every
  frame of at least 468 points; and two such frames that agree on their first 399 points
  get the same results.
\<close>

theorem landmark_reads_in_bounds:
  assumes "468 \<le> length landmarks"
  shows "metricsOf (take 399 landmarks) = metricsOf landmarks \<and>
         (\<exists>m. metricsOf landmarks = Some m) \<and>
         (\<exists>r. analyzeExpression landmarks this = Some r) \<and>
         (\<exists>d. calculateDirection tracker landmarks = Some d) \<and>
         (\<forall>other. 468 \<le> length other \<and> take 399 other = take 399 landmarks \<longrightarrow>
            analyzeExpression other this = analyzeExpression landmarks this \<and>
            calculateDirection tracker other = calculateDirection tracker landmarks)"
proof -
  from assms have long: "398 < length landmarks" by simp
  obtain m where m: "metricsOf landmarks = Some m"
    using metricsOf_Some [OF long] by blast
  have pre: "metricsOf (take 399 landmarks) = metricsOf landmarks"
    by (rule metricsOf_prefix [OF long])
  have ex_m: "\<exists>m. metricsOf landmarks = Some m"
    using m by blast
  have ex_r: "\<exists>r. analyzeExpression landmarks this = Some r"
    unfolding analyzeExpression_unfold [OF assms m]
    by (cases "rawClassification m") (simp add: Let_def)
  have ex_d: "\<exists>d. calculateDirection tracker landmarks = Some d"
    unfolding calculateDirection_unfold [OF assms] by blast
  have same: "\<forall>other. 468 \<le> length other \<and> take 399 other = take 399 landmarks \<longrightarrow>
      analyzeExpression other this = analyzeExpression landmarks this \<and>
      calculateDirection tracker other = calculateDirection tracker landmarks"
  proof (intro allI impI, elim conjE)
    fix other :: "Landmark list"
    assume other: "468 \<le> length other" and eq: "take 399 other = take 399 landmarks"
    from other have "398 < length other" by simp
    then have "metricsOf other = metricsOf (take 399 other)"
      by (rule metricsOf_prefix [symmetric])
    also have "\<dots> = metricsOf (take 399 landmarks)"
      by (simp only: eq)
    also have "\<dots> = Some m"
      by (simp only: pre m)
    finally have m': "metricsOf other = Some m" .
    have a: "analyzeExpression other this = analyzeExpression landmarks this"
      by (simp only: analyzeExpression_unfold [OF other m'] analyzeExpression_unfold [OF assms m])
    have d: "calculateDirection tracker other = calculateDirection tracker landmarks"
      by (simp only: calculateDirection_unfold [OF other] calculateDirection_unfold [OF assms]
          offsets_prefix [OF eq])
    from a d show "analyzeExpression other this = analyzeExpression landmarks this \<and>
      calculateDirection tracker other = calculateDirection tracker landmarks" ..
  qed
  from pre ex_m ex_r ex_d same show ?thesis by (intro conjI)
qed

theorem landmark_reads_in_bounds_witness:
  "468 \<le> length (createMockLandmarks 0.5 0.5) \<and>
   metricsOf (take 399 (createMockLandmarks 0.5 0.5)) = metricsOf (createMockLandmarks 0.5 0.5) \<and>
   (\<exists>r. analyzeExpression (createMockLandmarks 0.5 0.5) (sampleMatcher NEUTRAL 0) = Some r) \<and>
   (\<exists>d. calculateDirection (sampleTracker 0.15) (createMockLandmarks 0.5 0.5) = Some d)"
proof -
  have len: "468 \<le> length (createMockLandmarks 0.5 0.5)"
    by (simp add: length_createMockLandmarks)
  from landmark_reads_in_bounds [OF len, of "sampleMatcher NEUTRAL 0" "sampleTracker 0.15"]
  have "metricsOf (take 399 (createMockLandmarks 0.5 0.5)) = metricsOf (createMockLandmarks 0.5 0.5)"
    and "\<exists>r. analyzeExpression (createMockLandmarks 0.5 0.5) (sampleMatcher NEUTRAL 0) = Some r"
    and "\<exists>d. calculateDirection (sampleTracker 0.15) (createMockLandmarks 0.5 0.5) = Some d"
    by blast+
  with len show ?thesis by (intro conjI)
qed

end
